theory Spec2Isabelle
  imports Main "HOL-Library.Word" "HOL-Library.Sublist"
begin

section \<open>peakpip: a command-line wrapper around pip (main.go)\<close>

text \<open>
  The program is glue between three external collaborators: the operating system
  (\<open>exec.LookPath\<close>, \<open>exec.Command(...).Run()\<close>), the package index reached through
  \<open>http.Client.Get\<close>, and the command-line library cobra. The embedding makes them
  explicit:
  \<^item> everything the program does to the outside is an \<^emph>\<open>event\<close>, appended to a trace in
    the order in which the Go statements execute;
  \<^item> what the outside answers is a \<^emph>\<open>world\<close>: functions from the trace so far (and the
    request) to the answer, so that the answer to the second \<open>pip install\<close> may depend
    on the first;
  \<^item> a Go \<open>error\<close> return is an \<open>error option\<close> (\<open>None\<close> is \<open>nil\<close>);
  \<^item> cobra's work (flag parsing, argument validation, hook order) is modelled on the
    parsed command line, see \<open>Execute\<close>.
\<close>

subsection \<open>Constants\<close>

definition PyPIURL :: string where
  "PyPIURL = ''https://pypi.org/pypi''"

definition PyPISimpleURL :: string where
  "PyPISimpleURL = ''https://pypi.org/simple''"

text \<open>\<open>DefaultTimeout\<close> in seconds.\<close>

definition DefaultTimeout :: nat where
  "DefaultTimeout = 30"

definition MaxConcurrency :: int where
  "MaxConcurrency = 10"

text \<open>\<open>http.StatusOK\<close>.\<close>

definition StatusOK :: nat where
  "StatusOK = 200"

subsection \<open>Data model\<close>

record Package =
  Name :: string
  Version :: string
  Summary :: string
  Description :: string
  Author :: string
  Homepage :: string
  License :: string
  Keywords :: "string list"
  Classifiers :: "string list"
  Dependencies :: "string list"
  URLs :: "string \<rightharpoonup> string"

record Release =
  Filename :: string
  URL :: string
  PackageType :: string
  Size :: "64 word"
  MD5Digest :: string
  SHA256Digest :: string
  UploadTime :: string
  PythonVersion :: string

record PackageInfo =
  Info :: Package
  Releases :: "string \<rightharpoonup> Release list"
  InfoURLs :: "Release list"

text \<open>
  \<open>PeakPip\<close>: the \<open>client\<close> field is an \<open>http.Client\<close> of which the program sets the
  timeout only.
\<close>

record PeakPip =
  clientTimeout :: nat
  pythonPath :: string
  pipPath :: string
  concurrent :: int
  quiet :: bool
  verbose :: bool
  dryRun :: bool
  userInstall :: bool
  target :: string

subsection \<open>Errors\<close>

text \<open>
  The two kinds of \<open>error\<close> value that reach the program: the \<open>*exec.ExitError\<close> of a
  subprocess that exited with a non-zero status, and errors that are a message only
  (\<open>fmt.Errorf\<close>, a failed \<open>exec\<close>, a transport error). \<open>Error\<close> is the method
  \<open>err.Error()\<close>, which \<open>%v\<close> prints.
\<close>

datatype error = ExitError nat | ErrorString string

text \<open>\<open>"0123456789"[d]\<close>, for a digit \<open>d < 10\<close>.\<close>

definition digitChar :: "nat \<Rightarrow> char" where
  "digitChar d = ''0123456789'' ! d"

function Itoa :: "nat \<Rightarrow> string" where
  "Itoa n = (if n < 10 then [digitChar n] else Itoa (n div 10) @ [digitChar (n mod 10)])"
  by pat_completeness auto
termination
  by (relation "measure id") auto

declare Itoa.simps [simp del]

fun Error :: "error \<Rightarrow> string" where
  "Error (ExitError n) = ''exit status '' @ Itoa n"
| "Error (ErrorString s) = s"

subsection \<open>Events and the world\<close>

text \<open>
  \<open>Spawn path args inherit\<close>: \<open>exec.Command(path, args...).Run()\<close>; \<open>inherit\<close> says that
  the command's stdout and stderr were set to the program's own.
  \<open>Stdout s\<close>: \<open>fmt.Printf\<close>/\<open>fmt.Println\<close> wrote \<open>s\<close>. \<open>Stderr s\<close>: \<open>fmt.Fprintf(os.Stderr, ...)\<close>.
  \<open>HttpGet url\<close>: \<open>p.client.Get(url)\<close>.
\<close>

datatype event =
    Spawn string "string list" bool
  | Stdout string
  | Stderr string
  | HttpGet string

type_synonym trace = "event list"

record Response =
  StatusCode :: nat
  Body :: string

text \<open>
  The world. \<open>cmdRun\<close> is the result of \<open>cmd.Run()\<close>: \<open>None\<close> when the subprocess ran and
  exited with status 0. \<open>clientGet\<close> is the result of \<open>client.Get\<close>: a transport error
  or the response. \<open>jsonDecode\<close> is \<open>json.NewDecoder(body).Decode(&packageInfo)\<close> of
  encoding/json: the decoder's error message or the decoded value.
\<close>

record world =
  lookPath :: "string \<Rightarrow> string option"
  cmdRun :: "trace \<Rightarrow> string \<Rightarrow> string list \<Rightarrow> error option"
  clientGet :: "trace \<Rightarrow> string \<Rightarrow> error + Response"
  jsonDecode :: "string \<Rightarrow> error + PackageInfo"

type_synonym operation = "trace \<Rightarrow> error option \<times> trace"

text \<open>\<open>cmd := exec.Command(path, args...); ...; return cmd.Run()\<close>\<close>

definition runCommand :: "world \<Rightarrow> string \<Rightarrow> string list \<Rightarrow> bool \<Rightarrow> operation" where
  "runCommand w path args inherit t = (cmdRun w t path args, t @ [Spawn path args inherit])"

subsection \<open>Construction and initialisation\<close>

definition NewPeakPip :: PeakPip where
  "NewPeakPip = \<lparr> clientTimeout = DefaultTimeout, pythonPath = [], pipPath = [],
     concurrent = MaxConcurrency, quiet = False, verbose = False, dryRun = False,
     userInstall = False, target = [] \<rparr>"

definition Initialize :: "world \<Rightarrow> PeakPip \<Rightarrow> error + PeakPip" where
  "Initialize w p =
     (case (case lookPath w ''python3'' of Some x \<Rightarrow> Some x | None \<Rightarrow> lookPath w ''python'') of
        None \<Rightarrow> Inl (ErrorString ''python executable not found in PATH'')
      | Some py \<Rightarrow>
          (case (case lookPath w ''pip3'' of Some x \<Rightarrow> Some x | None \<Rightarrow> lookPath w ''pip'') of
             None \<Rightarrow> Inl (ErrorString ''pip executable not found in PATH'')
           | Some pip \<Rightarrow> Inr (p\<lparr>pythonPath := py, pipPath := pip\<rparr>)))"

subsection \<open>The index client\<close>

definition GetPackageInfo :: "world \<Rightarrow> PeakPip \<Rightarrow> string \<Rightarrow> trace \<Rightarrow> (error + PackageInfo) \<times> trace" where
  "GetPackageInfo w p packageName t =
     (let url = PyPIURL @ ''/'' @ packageName @ ''/json'';
          t' = t @ [HttpGet url]
      in case clientGet w t url of
           Inl err \<Rightarrow> (Inl (ErrorString (''failed to fetch package info: '' @ Error err)), t')
         | Inr resp \<Rightarrow>
             if StatusCode resp \<noteq> StatusOK
             then (Inl (ErrorString (''package not found: '' @ packageName)), t')
             else (case jsonDecode w (Body resp) of
                     Inl err \<Rightarrow> (Inl (ErrorString (''failed to decode package info: '' @ Error err)), t')
                   | Inr packageInfo \<Rightarrow> (Inr packageInfo, t')))"

definition SearchPackages :: "world \<Rightarrow> PeakPip \<Rightarrow> string \<Rightarrow> trace \<Rightarrow> (error + Package list) \<times> trace" where
  "SearchPackages w p query t =
     (let url = PyPISimpleURL @ ''/'' @ query @ ''/'';
          t' = t @ [HttpGet url]
      in case clientGet w t url of
           Inl err \<Rightarrow> (Inl (ErrorString (''search failed: '' @ Error err)), t')
         | Inr resp \<Rightarrow>
             if StatusCode resp = StatusOK
             then (case GetPackageInfo w p query t' of
                     (Inl err, t'') \<Rightarrow> (Inl err, t'')
                   | (Inr packageInfo, t'') \<Rightarrow> (Inr [Info packageInfo], t''))
             else (Inr [], t'))"

subsection \<open>The wrapper operations\<close>

definition InstallPackage :: "world \<Rightarrow> PeakPip \<Rightarrow> string \<Rightarrow> operation" where
  "InstallPackage w p packageSpec t =
     (if dryRun p then (None, t @ [Stdout (''would install: '' @ packageSpec @ ''\<newline>'')])
      else
        let args = [''install''];
            args = (if quiet p then args @ [''--quiet''] else args);
            args = (if verbose p then args @ [''--verbose''] else args);
            args = (if userInstall p then args @ [''--user''] else args);
            args = (if target p \<noteq> [] then args @ [''--target'', target p] else args);
            args = args @ [packageSpec]
        in runCommand w (pipPath p) args True t)"

definition UninstallPackage :: "world \<Rightarrow> PeakPip \<Rightarrow> string \<Rightarrow> operation" where
  "UninstallPackage w p packageName t =
     (if dryRun p then (None, t @ [Stdout (''would uninstall: '' @ packageName @ ''\<newline>'')])
      else
        let args = [''uninstall'', ''-y''];
            args = (if quiet p then args @ [''--quiet''] else args);
            args = (if verbose p then args @ [''--verbose''] else args);
            args = args @ [packageName]
        in runCommand w (pipPath p) args True t)"

definition ListPackages :: "world \<Rightarrow> PeakPip \<Rightarrow> bool \<Rightarrow> operation" where
  "ListPackages w p outdated t =
     (let args = [''list''];
          args = (if outdated then args @ [''--outdated''] else args);
          args = (if quiet p then args @ [''--quiet''] else args);
          args = (if verbose p then args @ [''--verbose''] else args)
      in runCommand w (pipPath p) args True t)"

definition ShowPackage :: "world \<Rightarrow> PeakPip \<Rightarrow> string \<Rightarrow> operation" where
  "ShowPackage w p packageName t =
     (case GetPackageInfo w p packageName t of
        (Inl err, t') \<Rightarrow> (Some err, t')
      | (Inr packageInfo, t') \<Rightarrow>
          (let i = Info packageInfo in
           (None,
            t' @ [Stdout (''name: '' @ Name i @ ''\<newline>''),
                  Stdout (''version: '' @ Version i @ ''\<newline>''),
                  Stdout (''summary: '' @ Summary i @ ''\<newline>''),
                  Stdout (''author: '' @ Author i @ ''\<newline>''),
                  Stdout (''homepage: '' @ Homepage i @ ''\<newline>''),
                  Stdout (''license: '' @ License i @ ''\<newline>'')]
               @ (if length (Dependencies i) > 0
                  then Stdout ''dependencies:\<newline>''
                       # map (\<lambda>dep. Stdout (''  '' @ dep @ ''\<newline>'')) (Dependencies i)
                  else [])
               @ (if length (Classifiers i) > 0
                  then Stdout ''classifiers:\<newline>''
                       # map (\<lambda>classifier. Stdout (''  '' @ classifier @ ''\<newline>'')) (Classifiers i)
                  else []))))"

definition UpgradePackage :: "world \<Rightarrow> PeakPip \<Rightarrow> string \<Rightarrow> operation" where
  "UpgradePackage w p packageName t =
     (if dryRun p then (None, t @ [Stdout (''would upgrade: '' @ packageName @ ''\<newline>'')])
      else
        let args = [''install'', ''--upgrade''];
            args = (if quiet p then args @ [''--quiet''] else args);
            args = (if verbose p then args @ [''--verbose''] else args);
            args = (if userInstall p then args @ [''--user''] else args);
            args = args @ [packageName]
        in runCommand w (pipPath p) args True t)"

definition DownloadPackage :: "world \<Rightarrow> PeakPip \<Rightarrow> string \<Rightarrow> string \<Rightarrow> operation" where
  "DownloadPackage w p packageName destDir t =
     (if dryRun p
      then (None, t @ [Stdout (''would download: '' @ packageName @ '' to '' @ destDir @ ''\<newline>'')])
      else
        let args = [''download''];
            args = (if destDir \<noteq> [] then args @ [''--dest'', destDir] else args);
            args = (if quiet p then args @ [''--quiet''] else args);
            args = (if verbose p then args @ [''--verbose''] else args);
            args = args @ [packageName]
        in runCommand w (pipPath p) args True t)"

definition FreezePackages :: "world \<Rightarrow> PeakPip \<Rightarrow> operation" where
  "FreezePackages w p t = runCommand w (pipPath p) [''freeze''] True t"

definition InstallRequirements :: "world \<Rightarrow> PeakPip \<Rightarrow> string \<Rightarrow> operation" where
  "InstallRequirements w p requirementsFile t =
     (if dryRun p
      then (None, t @ [Stdout (''would install requirements from: '' @ requirementsFile @ ''\<newline>'')])
      else
        let args = [''install'', ''-r'', requirementsFile];
            args = (if quiet p then args @ [''--quiet''] else args);
            args = (if verbose p then args @ [''--verbose''] else args);
            args = (if userInstall p then args @ [''--user''] else args);
            args = (if target p \<noteq> [] then args @ [''--target'', target p] else args)
        in runCommand w (pipPath p) args True t)"

text \<open>\<open>CheckPackage\<close> leaves the command's stdout and stderr unset.\<close>

definition CheckPackage :: "world \<Rightarrow> PeakPip \<Rightarrow> string \<Rightarrow> operation" where
  "CheckPackage w p packageName t = runCommand w (pipPath p) [''show'', packageName] False t"

subsection \<open>The command dispatcher\<close>

text \<open>
  The parsed command line. cobra binds the persistent flags (\<open>--quiet\<close>, \<open>--verbose\<close>,
  \<open>--dry-run\<close>, \<open>--concurrent\<close>) for every subcommand and the local flags for their own
  subcommand only, so the local flags are arguments of the subcommand's constructor:
  \<open>InstallCmd user target requirements args\<close>, \<open>ListCmd outdated args\<close>,
  \<open>DownloadCmd dest args\<close>. A command line that cobra rejects while parsing (unknown
  subcommand or flag, a value of \<open>--concurrent\<close> that is no integer) or answers itself
  (\<open>--help\<close>) never reaches the code of main.go and is outside the model, and
  so is what cobra itself prints.
\<close>

datatype command =
    InstallCmd bool string string "string list"
  | UninstallCmd "string list"
  | ListCmd bool "string list"
  | ShowCmd "string list"
  | SearchCmd "string list"
  | UpgradeCmd "string list"
  | DownloadCmd string "string list"
  | FreezeCmd "string list"
  | CheckCmd "string list"

record invocation =
  quietFlag :: bool
  verboseFlag :: bool
  dryRunFlag :: bool
  concurrentFlag :: int
  subcommand :: command

text \<open>
  cobra's positional-argument validators, as the library defines them:
  \<open>MinimumNArgs(n)\<close> fails when fewer than \<open>n\<close> arguments are given, \<open>ExactArgs(n)\<close>
  when their number is not \<open>n\<close>. A subcommand with no \<open>Args\<close> validator and no
  subcommands of its own (\<open>list\<close>, \<open>freeze\<close>) accepts any arguments.
\<close>

definition MinimumNArgs :: "nat \<Rightarrow> string list \<Rightarrow> error option" where
  "MinimumNArgs n args =
     (if length args < n
      then Some (ErrorString (''requires at least '' @ Itoa n @ '' arg(s), only received '' @ Itoa (length args)))
      else None)"

definition ExactArgs :: "nat \<Rightarrow> string list \<Rightarrow> error option" where
  "ExactArgs n args =
     (if length args \<noteq> n
      then Some (ErrorString (''accepts '' @ Itoa n @ '' arg(s), received '' @ Itoa (length args)))
      else None)"

fun ValidateArgs :: "command \<Rightarrow> error option" where
  "ValidateArgs (InstallCmd u tg rq args) = MinimumNArgs 1 args"
| "ValidateArgs (UninstallCmd args) = MinimumNArgs 1 args"
| "ValidateArgs (ListCmd outdated args) = None"
| "ValidateArgs (ShowCmd args) = MinimumNArgs 1 args"
| "ValidateArgs (SearchCmd args) = ExactArgs 1 args"
| "ValidateArgs (UpgradeCmd args) = MinimumNArgs 1 args"
| "ValidateArgs (DownloadCmd dest args) = MinimumNArgs 1 args"
| "ValidateArgs (FreezeCmd args) = None"
| "ValidateArgs (CheckCmd args) = MinimumNArgs 1 args"

text \<open>
  \<open>for _, pkg := range args { if err := body(pkg); err != nil { return err } }; return nil\<close>:
  the loop shared by the \<open>RunE\<close> closures. The body returns the error already wrapped.
\<close>

fun rangeArgs :: "(string \<Rightarrow> operation) \<Rightarrow> string list \<Rightarrow> operation" where
  "rangeArgs body [] t = (None, t)"
| "rangeArgs body (pkg # rest) t =
     (case body pkg t of
        (Some err, t') \<Rightarrow> (Some err, t')
      | (None, t') \<Rightarrow> rangeArgs body rest t')"

text \<open>\<open>if err := op(pkg); err != nil { return fmt.Errorf("failed to <what> %s: %v", pkg, err) }\<close>\<close>

definition failedTo :: "string \<Rightarrow> string \<Rightarrow> error \<Rightarrow> error" where
  "failedTo what pkg err = ErrorString (''failed to '' @ what @ '' '' @ pkg @ '': '' @ Error err)"

definition wrapFailure :: "string \<Rightarrow> (string \<Rightarrow> operation) \<Rightarrow> string \<Rightarrow> operation" where
  "wrapFailure what op pkg t =
     (case op pkg t of
        (Some err, t') \<Rightarrow> (Some (failedTo what pkg err), t')
      | (None, t') \<Rightarrow> (None, t'))"

definition installCmd_RunE :: "world \<Rightarrow> PeakPip \<Rightarrow> string list \<Rightarrow> operation" where
  "installCmd_RunE w p args = rangeArgs (wrapFailure ''install'' (InstallPackage w p)) args"

definition installCmd_PreRunE :: "world \<Rightarrow> PeakPip \<Rightarrow> string \<Rightarrow> operation" where
  "installCmd_PreRunE w p reqFile t =
     (if reqFile \<noteq> [] then InstallRequirements w p reqFile t else (None, t))"

definition uninstallCmd_RunE :: "world \<Rightarrow> PeakPip \<Rightarrow> string list \<Rightarrow> operation" where
  "uninstallCmd_RunE w p args = rangeArgs (wrapFailure ''uninstall'' (UninstallPackage w p)) args"

definition listCmd_RunE :: "world \<Rightarrow> PeakPip \<Rightarrow> bool \<Rightarrow> operation" where
  "listCmd_RunE w p outdated = ListPackages w p outdated"

text \<open>The body of the loop of \<open>show\<close>; \<open>n\<close> is \<open>len(args)\<close>.\<close>

definition showBody :: "world \<Rightarrow> PeakPip \<Rightarrow> nat \<Rightarrow> string \<Rightarrow> operation" where
  "showBody w p n pkg t =
     (case ShowPackage w p pkg t of
        (Some err, t') \<Rightarrow> (Some (failedTo ''show'' pkg err), t')
      | (None, t') \<Rightarrow> (None, if n > 1 then t' @ [Stdout ''---\<newline>''] else t'))"

definition showCmd_RunE :: "world \<Rightarrow> PeakPip \<Rightarrow> string list \<Rightarrow> operation" where
  "showCmd_RunE w p args = rangeArgs (showBody w p (length args)) args"

text \<open>
  \<open>args[0]\<close> panics on an empty slice; \<open>ExactArgs(1)\<close> runs first (see \<open>Execute\<close>), and the
  panic is an error of the model.
\<close>

definition searchCmd_RunE :: "world \<Rightarrow> PeakPip \<Rightarrow> string list \<Rightarrow> operation" where
  "searchCmd_RunE w p args t =
     (case args of
        [] \<Rightarrow> (Some (ErrorString ''panic: runtime error: index out of range [0] with length 0''), t)
      | query # _ \<Rightarrow>
          (case SearchPackages w p query t of
             (Inl err, t') \<Rightarrow> (Some err, t')
           | (Inr packages, t') \<Rightarrow>
               (None, t' @ map (\<lambda>pkg. Stdout (Name pkg @ '' ('' @ Version pkg @ '') - '' @ Summary pkg @ ''\<newline>''))
                             packages)))"

definition upgradeCmd_RunE :: "world \<Rightarrow> PeakPip \<Rightarrow> string list \<Rightarrow> operation" where
  "upgradeCmd_RunE w p args = rangeArgs (wrapFailure ''upgrade'' (UpgradePackage w p)) args"

definition downloadCmd_RunE :: "world \<Rightarrow> PeakPip \<Rightarrow> string \<Rightarrow> string list \<Rightarrow> operation" where
  "downloadCmd_RunE w p destDir args =
     rangeArgs (wrapFailure ''download'' (\<lambda>pkg. DownloadPackage w p pkg destDir)) args"

definition freezeCmd_RunE :: "world \<Rightarrow> PeakPip \<Rightarrow> operation" where
  "freezeCmd_RunE w p = FreezePackages w p"

text \<open>The body of the loop of \<open>check\<close>: either branch prints, neither returns.\<close>

definition checkBody :: "world \<Rightarrow> PeakPip \<Rightarrow> string \<Rightarrow> operation" where
  "checkBody w p pkg t =
     (case CheckPackage w p pkg t of
        (Some err, t') \<Rightarrow> (None, t' @ [Stdout (pkg @ '': not installed\<newline>'')])
      | (None, t') \<Rightarrow> (None, t' @ [Stdout (pkg @ '': installed\<newline>'')]))"

definition checkCmd_RunE :: "world \<Rightarrow> PeakPip \<Rightarrow> string list \<Rightarrow> operation" where
  "checkCmd_RunE w p args = rangeArgs (checkBody w p) args"

fun PreRunE :: "world \<Rightarrow> PeakPip \<Rightarrow> command \<Rightarrow> operation" where
  "PreRunE w p (InstallCmd u tg rq args) = installCmd_PreRunE w p rq"
| "PreRunE w p c = (\<lambda>t. (None, t))"

fun RunE :: "world \<Rightarrow> PeakPip \<Rightarrow> command \<Rightarrow> operation" where
  "RunE w p (InstallCmd u tg rq args) = installCmd_RunE w p args"
| "RunE w p (UninstallCmd args) = uninstallCmd_RunE w p args"
| "RunE w p (ListCmd outdated args) = listCmd_RunE w p outdated"
| "RunE w p (ShowCmd args) = showCmd_RunE w p args"
| "RunE w p (SearchCmd args) = searchCmd_RunE w p args"
| "RunE w p (UpgradeCmd args) = upgradeCmd_RunE w p args"
| "RunE w p (DownloadCmd dest args) = downloadCmd_RunE w p dest args"
| "RunE w p (FreezeCmd args) = freezeCmd_RunE w p"
| "RunE w p (CheckCmd args) = checkCmd_RunE w p args"

text \<open>
  \<open>rootCmd.Execute()\<close> on a parsed command line, in cobra's order: the \<open>Args\<close> validator,
  then \<open>PreRunE\<close>, then \<open>RunE\<close>; the first error ends the command.
\<close>

definition Execute :: "world \<Rightarrow> PeakPip \<Rightarrow> command \<Rightarrow> operation" where
  "Execute w p c t =
     (case ValidateArgs c of
        Some err \<Rightarrow> (Some err, t)
      | None \<Rightarrow>
          (case PreRunE w p c t of
             (Some err, t') \<Rightarrow> (Some err, t')
           | (None, t') \<Rightarrow> RunE w p c t'))"

text \<open>
  The flag variables are fields of the one \<open>PeakPip\<close> value: the persistent flags for
  every subcommand, \<open>--user\<close> and \<open>--target\<close> for \<open>install\<close> (elsewhere they keep their
  defaults).
\<close>

definition bindFlags :: "invocation \<Rightarrow> PeakPip \<Rightarrow> PeakPip" where
  "bindFlags cl p =
     p\<lparr> quiet := quietFlag cl, verbose := verboseFlag cl, dryRun := dryRunFlag cl,
        concurrent := concurrentFlag cl,
        userInstall := (case subcommand cl of InstallCmd u tg rq args \<Rightarrow> u | _ \<Rightarrow> False),
        target := (case subcommand cl of InstallCmd u tg rq args \<Rightarrow> tg | _ \<Rightarrow> []) \<rparr>"

text \<open>\<open>main\<close>: the exit status of the process and everything it did.\<close>

definition main :: "world \<Rightarrow> invocation \<Rightarrow> nat \<times> trace" where
  "main w cl =
     (case Initialize w NewPeakPip of
        Inl err \<Rightarrow> (1, [Stderr (''error initializing PeakPip: '' @ Error err @ ''\<newline>'')])
      | Inr peakPip \<Rightarrow>
          (case Execute w (bindFlags cl peakPip) (subcommand cl) [] of
             (Some err, t) \<Rightarrow> (1, t @ [Stderr (''error: '' @ Error err @ ''\<newline>'')])
           | (None, t) \<Rightarrow> (0, t)))"

subsection \<open>Observations on a trace\<close>

fun isSpawn :: "event \<Rightarrow> bool" where
  "isSpawn (Spawn path args inherit) = True"
| "isSpawn e = False"

fun isHttpGet :: "event \<Rightarrow> bool" where
  "isHttpGet (HttpGet url) = True"
| "isHttpGet e = False"

text \<open>The argument lists of the subprocesses of a trace, in the order they were spawned.\<close>

fun spawnedArgs :: "trace \<Rightarrow> string list list" where
  "spawnedArgs [] = []"
| "spawnedArgs (Spawn path args inherit # t) = args # spawnedArgs t"
| "spawnedArgs (e # t) = spawnedArgs t"

subsection \<open>The layout of the argument lists, stated apart from the code\<close>

text \<open>
  What the operations are expected to pass to pip, written as data: the tokens before
  the package name. The theorems below compare the traces of the code with these.
\<close>

definition behaviourFlags :: "PeakPip \<Rightarrow> string list" where
  "behaviourFlags p =
     (if quiet p then [''--quiet''] else []) @ (if verbose p then [''--verbose''] else [])"

definition userOption :: "PeakPip \<Rightarrow> string list" where
  "userOption p = (if userInstall p then [''--user''] else [])"

definition targetOption :: "PeakPip \<Rightarrow> string list" where
  "targetOption p = (if target p = [] then [] else [''--target'', target p])"

definition destOption :: "string \<Rightarrow> string list" where
  "destOption destDir = (if destDir = [] then [] else [''--dest'', destDir])"

fun pipPrefix :: "PeakPip \<Rightarrow> command \<Rightarrow> string list" where
  "pipPrefix p (InstallCmd u tg rq args) = [''install''] @ behaviourFlags p @ userOption p @ targetOption p"
| "pipPrefix p (UninstallCmd args) = [''uninstall'', ''-y''] @ behaviourFlags p"
| "pipPrefix p (ListCmd outdated args) =
     [''list''] @ (if outdated then [''--outdated''] else []) @ behaviourFlags p"
| "pipPrefix p (ShowCmd args) = []"
| "pipPrefix p (SearchCmd args) = []"
| "pipPrefix p (UpgradeCmd args) = [''install'', ''--upgrade''] @ behaviourFlags p @ userOption p"
| "pipPrefix p (DownloadCmd dest args) = [''download''] @ destOption dest @ behaviourFlags p"
| "pipPrefix p (FreezeCmd args) = [''freeze'']"
| "pipPrefix p (CheckCmd args) = [''show'']"

text \<open>The positional arguments of a command and the name of its verb.\<close>

fun positional :: "command \<Rightarrow> string list" where
  "positional (InstallCmd u tg rq args) = args"
| "positional (UninstallCmd args) = args"
| "positional (ListCmd outdated args) = args"
| "positional (ShowCmd args) = args"
| "positional (SearchCmd args) = args"
| "positional (UpgradeCmd args) = args"
| "positional (DownloadCmd dest args) = args"
| "positional (FreezeCmd args) = args"
| "positional (CheckCmd args) = args"

fun verbName :: "command \<Rightarrow> string" where
  "verbName (InstallCmd u tg rq args) = ''install''"
| "verbName (UninstallCmd args) = ''uninstall''"
| "verbName (ListCmd outdated args) = ''list''"
| "verbName (ShowCmd args) = ''show''"
| "verbName (SearchCmd args) = ''search''"
| "verbName (UpgradeCmd args) = ''upgrade''"
| "verbName (DownloadCmd dest args) = ''download''"
| "verbName (FreezeCmd args) = ''freeze''"
| "verbName (CheckCmd args) = ''check''"

subsection \<open>A concrete world\<close>

text \<open>
  A machine with \<open>python3\<close> and \<open>pip3\<close> on the PATH. pip exits with status \<open>pipStatus\<close>
  when the last argument is \<open>bad\<close> and with 0 otherwise. The index answers every request
  with status \<open>httpStatus\<close> and the body \<open>body\<close>, except for the package \<open>bad\<close>, which
  it does not know (404). The decoder fails on an empty body and decodes every other
  body to \<open>demoInfo\<close>.
\<close>

definition demoInfo :: PackageInfo where
  "demoInfo =
     \<lparr> Info = \<lparr> Name = ''requests'', Version = ''2.31.0'', Summary = ''HTTP for Humans'',
                Description = [], Author = ''Kenneth Reitz'', Homepage = ''https://requests.readthedocs.io'',
                License = ''Apache 2.0'', Keywords = [], Classifiers = [],
                Dependencies = [''idna'', ''urllib3''], URLs = Map.empty \<rparr>,
       Releases = Map.empty, InfoURLs = [] \<rparr>"

definition demoLookPath :: "string \<Rightarrow> string option" where
  "demoLookPath file =
     (if file = ''python3'' then Some ''/usr/bin/python3''
      else if file = ''pip3'' then Some ''/usr/bin/pip3'' else None)"

definition demoWorld :: "nat \<Rightarrow> nat \<Rightarrow> string \<Rightarrow> world" where
  "demoWorld pipStatus httpStatus body =
     \<lparr> lookPath = demoLookPath,
       cmdRun = (\<lambda>t path args. if args \<noteq> [] \<and> last args = ''bad'' then Some (ExitError pipStatus) else None),
       clientGet = (\<lambda>t url. Inr \<lparr> StatusCode = (if url = ''https://pypi.org/pypi/bad/json'' then 404 else httpStatus),
                                  Body = body \<rparr>),
       jsonDecode = (\<lambda>b. if b = [] then Inl (ErrorString ''EOF'') else Inr demoInfo) \<rparr>"

definition demoPip :: PeakPip where
  "demoPip = NewPeakPip\<lparr>pythonPath := ''/usr/bin/python3'', pipPath := ''/usr/bin/pip3''\<rparr>"

definition demoLine :: "command \<Rightarrow> invocation" where
  "demoLine c = \<lparr> quietFlag = False, verboseFlag = False, dryRunFlag = False,
                  concurrentFlag = MaxConcurrency, subcommand = c \<rparr>"

section \<open>Properties\<close>

subsection \<open>Auxiliary facts\<close>

lemmas demo_defs =
  demoWorld_def demoLookPath_def demoPip_def demoLine_def demoInfo_def NewPeakPip_def
  DefaultTimeout_def MaxConcurrency_def PyPIURL_def PyPISimpleURL_def StatusOK_def

lemmas operation_defs =
  InstallPackage_def UninstallPackage_def ListPackages_def ShowPackage_def UpgradePackage_def
  DownloadPackage_def FreezePackages_def InstallRequirements_def CheckPackage_def
  GetPackageInfo_def SearchPackages_def runCommand_def

lemmas dispatcher_defs =
  main_def Initialize_def Execute_def bindFlags_def MinimumNArgs_def ExactArgs_def
  installCmd_RunE_def installCmd_PreRunE_def uninstallCmd_RunE_def listCmd_RunE_def
  showCmd_RunE_def showBody_def searchCmd_RunE_def upgradeCmd_RunE_def downloadCmd_RunE_def
  freezeCmd_RunE_def checkCmd_RunE_def checkBody_def wrapFailure_def failedTo_def

lemmas layout_defs = behaviourFlags_def userOption_def targetOption_def destOption_def

lemma Itoa_digit: "n < 10 \<Longrightarrow> Itoa n = [''0123456789'' ! n]"
  by (simp add: Itoa.simps digitChar_def)

lemma spawnedArgs_append: "spawnedArgs (t @ u) = spawnedArgs t @ spawnedArgs u"
  by (induction t rule: spawnedArgs.induct) simp_all

lemma snd_wrapFailure: "snd (wrapFailure what op pkg t) = snd (op pkg t)"
  by (simp add: wrapFailure_def split: prod.splits option.splits)

lemma fst_wrapFailure:
  "fst (wrapFailure what op pkg t) = map_option (failedTo what pkg) (fst (op pkg t))"
  by (simp add: wrapFailure_def split: prod.splits option.splits)

text \<open>A property of the spawned argument lists that every pass of the loop keeps, the loop keeps.\<close>

lemma rangeArgs_list_all:
  assumes step: "\<And>pkg t. list_all P (spawnedArgs t) \<Longrightarrow> list_all P (spawnedArgs (snd (body pkg t)))"
  shows "list_all P (spawnedArgs t) \<Longrightarrow> list_all P (spawnedArgs (snd (rangeArgs body names t)))"
proof (induction names arbitrary: t)
  case Nil
  then show ?case by simp
next
  case (Cons pkg rest)
  obtain r t' where b: "body pkg t = (r, t')"
    by (cases "body pkg t")
  from step [OF Cons.prems, of pkg] b have inv: "list_all P (spawnedArgs t')"
    by simp
  show ?case
  proof (cases r)
    case None
    with b Cons.IH [OF inv] show ?thesis by simp
  next
    case (Some err)
    with b inv show ?thesis by simp
  qed
qed

subsection \<open>The concurrent flag\<close>

lemma GetPackageInfo_concurrent:
  "GetPackageInfo w (p\<lparr>concurrent := k\<rparr>) n t = GetPackageInfo w p n t"
  by (simp add: GetPackageInfo_def)

lemma SearchPackages_concurrent:
  "SearchPackages w (p\<lparr>concurrent := k\<rparr>) q t = SearchPackages w p q t"
  by (simp add: SearchPackages_def GetPackageInfo_concurrent Let_def cong: sum.case_cong if_cong)

lemma InstallPackage_concurrent:
  "InstallPackage w (p\<lparr>concurrent := k\<rparr>) = InstallPackage w p"
  by (simp add: InstallPackage_def fun_eq_iff Let_def cong: if_cong)

lemma UninstallPackage_concurrent:
  "UninstallPackage w (p\<lparr>concurrent := k\<rparr>) = UninstallPackage w p"
  by (simp add: UninstallPackage_def fun_eq_iff Let_def cong: if_cong)

lemma ListPackages_concurrent:
  "ListPackages w (p\<lparr>concurrent := k\<rparr>) = ListPackages w p"
  by (simp add: ListPackages_def fun_eq_iff Let_def cong: if_cong)

lemma ShowPackage_concurrent:
  "ShowPackage w (p\<lparr>concurrent := k\<rparr>) = ShowPackage w p"
  by (simp add: ShowPackage_def fun_eq_iff GetPackageInfo_concurrent)

lemma UpgradePackage_concurrent:
  "UpgradePackage w (p\<lparr>concurrent := k\<rparr>) = UpgradePackage w p"
  by (simp add: UpgradePackage_def fun_eq_iff Let_def cong: if_cong)

lemma DownloadPackage_concurrent:
  "DownloadPackage w (p\<lparr>concurrent := k\<rparr>) = DownloadPackage w p"
  by (simp add: DownloadPackage_def fun_eq_iff Let_def cong: if_cong)

lemma FreezePackages_concurrent:
  "FreezePackages w (p\<lparr>concurrent := k\<rparr>) = FreezePackages w p"
  by (simp add: FreezePackages_def fun_eq_iff)

lemma InstallRequirements_concurrent:
  "InstallRequirements w (p\<lparr>concurrent := k\<rparr>) = InstallRequirements w p"
  by (simp add: InstallRequirements_def fun_eq_iff Let_def cong: if_cong)

lemma CheckPackage_concurrent:
  "CheckPackage w (p\<lparr>concurrent := k\<rparr>) = CheckPackage w p"
  by (simp add: CheckPackage_def fun_eq_iff)

lemmas operations_concurrent =
  SearchPackages_concurrent InstallPackage_concurrent UninstallPackage_concurrent
  ListPackages_concurrent ShowPackage_concurrent UpgradePackage_concurrent
  DownloadPackage_concurrent FreezePackages_concurrent InstallRequirements_concurrent
  CheckPackage_concurrent

lemma PreRunE_concurrent: "PreRunE w (p\<lparr>concurrent := k\<rparr>) c = PreRunE w p c"
  by (cases c) (simp_all add: installCmd_PreRunE_def fun_eq_iff operations_concurrent)

lemma showBody_concurrent: "showBody w (p\<lparr>concurrent := k\<rparr>) = showBody w p"
  by (simp add: showBody_def fun_eq_iff ShowPackage_concurrent)

lemma checkBody_concurrent: "checkBody w (p\<lparr>concurrent := k\<rparr>) = checkBody w p"
  by (simp add: checkBody_def fun_eq_iff CheckPackage_concurrent)

lemma searchCmd_RunE_concurrent:
  "searchCmd_RunE w (p\<lparr>concurrent := k\<rparr>) = searchCmd_RunE w p"
  by (simp add: searchCmd_RunE_def fun_eq_iff SearchPackages_concurrent cong: list.case_cong)

lemma RunE_concurrent: "RunE w (p\<lparr>concurrent := k\<rparr>) c = RunE w p c"
  by (cases c)
     (simp_all add: installCmd_RunE_def uninstallCmd_RunE_def listCmd_RunE_def showCmd_RunE_def
        showBody_concurrent searchCmd_RunE_concurrent upgradeCmd_RunE_def downloadCmd_RunE_def
        freezeCmd_RunE_def checkCmd_RunE_def checkBody_concurrent operations_concurrent)

lemma Execute_concurrent: "Execute w (p\<lparr>concurrent := k\<rparr>) c t = Execute w p c t"
  by (simp add: Execute_def PreRunE_concurrent RunE_concurrent
        cong: option.case_cong prod.case_cong)

lemma bindFlags_concurrent:
  "bindFlags (cl\<lparr>concurrentFlag := k\<rparr>) p = (bindFlags cl p)\<lparr>concurrent := k\<rparr>"
  by (simp add: bindFlags_def)

text \<open>
  C8. The value of \<open>--concurrent\<close> changes nothing: two runs of the program that differ in
  that value only end with the same exit status and the same trace (the same
  subprocesses with the same argument lists, the same HTTP requests, the same output),
  and so do two runs of a command, of \<open>GetPackageInfo\<close> and of \<open>SearchPackages\<close> on
  configurations that differ in the \<open>concurrent\<close> field only.
\<close>

theorem concurrent_has_no_effect:
  "main w (cl\<lparr>concurrentFlag := k\<rparr>) = main w cl
   \<and> Execute w (p\<lparr>concurrent := k\<rparr>) c t = Execute w p c t
   \<and> GetPackageInfo w (p\<lparr>concurrent := k\<rparr>) n t = GetPackageInfo w p n t
   \<and> SearchPackages w (p\<lparr>concurrent := k\<rparr>) n t = SearchPackages w p n t"
  by (simp add: main_def bindFlags_concurrent Execute_concurrent GetPackageInfo_concurrent
        SearchPackages_concurrent cong: sum.case_cong)

theorem concurrent_has_no_effect_witness:
  "main (demoWorld 2 200 ''{}'') ((demoLine (InstallCmd False [] [] [''requests'', ''idna'']))\<lparr>concurrentFlag := 1\<rparr>)
     = (0, [Spawn ''/usr/bin/pip3'' [''install'', ''requests''] True,
            Spawn ''/usr/bin/pip3'' [''install'', ''idna''] True])
   \<and> main (demoWorld 2 200 ''{}'') (demoLine (InstallCmd False [] [] [''requests'', ''idna'']))
     = (0, [Spawn ''/usr/bin/pip3'' [''install'', ''requests''] True,
            Spawn ''/usr/bin/pip3'' [''install'', ''idna''] True])"
proof -
  have run: "main (demoWorld 2 200 ''{}'') (demoLine (InstallCmd False [] [] [''requests'', ''idna'']))
     = (0, [Spawn ''/usr/bin/pip3'' [''install'', ''requests''] True,
            Spawn ''/usr/bin/pip3'' [''install'', ''idna''] True])"
    by (simp add: demo_defs dispatcher_defs operation_defs)
  from concurrent_has_no_effect
    [where w = "demoWorld 2 200 ''{}''" and k = 1
       and cl = "demoLine (InstallCmd False [] [] [''requests'', ''idna''])"]
  have "main (demoWorld 2 200 ''{}'') ((demoLine (InstallCmd False [] [] [''requests'', ''idna'']))\<lparr>concurrentFlag := 1\<rparr>)
     = main (demoWorld 2 200 ''{}'') (demoLine (InstallCmd False [] [] [''requests'', ''idna'']))"
    by blast
  with run show ?thesis by simp
qed

subsection \<open>Uninstalling\<close>

lemma UninstallPackage_spawned:
  "spawnedArgs (snd (UninstallPackage w p n t)) =
     spawnedArgs t @ (if dryRun p then [] else [[''uninstall'', ''-y''] @ behaviourFlags p @ [n]])"
  by (simp add: UninstallPackage_def runCommand_def behaviourFlags_def Let_def spawnedArgs_append)

lemma uninstall_loop_yes:
  "list_all (\<lambda>a. take 2 a = [''uninstall'', ''-y''])
     (spawnedArgs (snd (rangeArgs (wrapFailure ''uninstall'' (UninstallPackage w p)) names [])))"
  by (rule rangeArgs_list_all) (simp_all add: snd_wrapFailure UninstallPackage_spawned)

text \<open>
  C9. The argument list that \<open>UninstallPackage\<close> passes to pip is \<open>uninstall\<close>, \<open>-y\<close>, the
  behaviour flags, the package name: \<open>-y\<close> comes right after the verb, for every package
  name and every configuration (in dry-run mode pip is not run at all). So every pip
  that the \<open>uninstall\<close> command starts is started with \<open>uninstall -y\<close>.
\<close>

theorem uninstall_always_auto_confirms:
  "spawnedArgs (snd (UninstallPackage w p n t)) =
     spawnedArgs t @ (if dryRun p then [] else [[''uninstall'', ''-y''] @ behaviourFlags p @ [n]])
   \<and> list_all (\<lambda>a. take 2 a = [''uninstall'', ''-y''])
       (spawnedArgs (snd (Execute w p (UninstallCmd names) [])))"
proof -
  have "list_all (\<lambda>a. take 2 a = [''uninstall'', ''-y''])
          (spawnedArgs (snd (Execute w p (UninstallCmd names) [])))"
    using uninstall_loop_yes [of w p names]
    by (simp add: Execute_def uninstallCmd_RunE_def split: option.splits)
  then show ?thesis
    by (simp add: UninstallPackage_spawned)
qed

theorem uninstall_always_auto_confirms_witness:
  "spawnedArgs (snd (Execute (demoWorld 2 200 ''{}'') (demoPip\<lparr>quiet := True\<rparr>) (UninstallCmd [''requests'', ''idna'']) []))
     = [[''uninstall'', ''-y'', ''--quiet'', ''requests''], [''uninstall'', ''-y'', ''--quiet'', ''idna'']]
   \<and> list_all (\<lambda>a. take 2 a = [''uninstall'', ''-y''])
       (spawnedArgs (snd (Execute (demoWorld 2 200 ''{}'') (demoPip\<lparr>quiet := True\<rparr>) (UninstallCmd [''requests'', ''idna'']) [])))"
proof -
  have run: "spawnedArgs (snd (Execute (demoWorld 2 200 ''{}'') (demoPip\<lparr>quiet := True\<rparr>) (UninstallCmd [''requests'', ''idna'']) []))
     = [[''uninstall'', ''-y'', ''--quiet'', ''requests''], [''uninstall'', ''-y'', ''--quiet'', ''idna'']]"
    by (simp add: demo_defs dispatcher_defs operation_defs)
  from uninstall_always_auto_confirms
    [where w = "demoWorld 2 200 ''{}''" and p = "demoPip\<lparr>quiet := True\<rparr>"
       and names = "[''requests'', ''idna'']"]
  have "list_all (\<lambda>a. take 2 a = [''uninstall'', ''-y''])
       (spawnedArgs (snd (Execute (demoWorld 2 200 ''{}'') (demoPip\<lparr>quiet := True\<rparr>) (UninstallCmd [''requests'', ''idna'']) [])))"
    by blast
  with run show ?thesis by blast
qed

subsection \<open>The index client\<close>

text \<open>
  C3, as the code has it. \<open>GetPackageInfo name\<close> issues one GET to \<open><index>/<name>/json\<close>.
  When a response arrives: every status other than 200 gives the error
  \<open>package not found: <name>\<close>; status 200 with a body that does not decode gives the
  error \<open>failed to decode package info: ...\<close>; status 200 with a body that decodes gives
  the decoded record. The test is \<open>!= http.StatusOK\<close>, not "outside 2xx".
\<close>

theorem GetPackageInfo_outcomes:
  assumes "clientGet w t (''https://pypi.org/pypi/'' @ name @ ''/json'') = Inr resp"
  shows "snd (GetPackageInfo w p name t) = t @ [HttpGet (''https://pypi.org/pypi/'' @ name @ ''/json'')]
    \<and> (StatusCode resp \<noteq> 200 \<longrightarrow>
          fst (GetPackageInfo w p name t) = Inl (ErrorString (''package not found: '' @ name)))
    \<and> (\<forall>err. StatusCode resp = 200 \<and> jsonDecode w (Body resp) = Inl err \<longrightarrow>
          fst (GetPackageInfo w p name t) =
            Inl (ErrorString (''failed to decode package info: '' @ Error err)))
    \<and> (\<forall>info. StatusCode resp = 200 \<and> jsonDecode w (Body resp) = Inr info \<longrightarrow>
          fst (GetPackageInfo w p name t) = Inr info)"
proof -
  have url: "PyPIURL @ ''/'' @ name @ ''/json'' = ''https://pypi.org/pypi/'' @ name @ ''/json''"
    by (simp add: PyPIURL_def)
  show ?thesis
    unfolding GetPackageInfo_def Let_def url using assms
    by (auto simp: StatusOK_def split: sum.splits)
qed

theorem GetPackageInfo_outcomes_witness:
  "fst (GetPackageInfo (demoWorld 2 404 ''{...}'') demoPip ''nonexistent-package-xyz'' [])
     = Inl (ErrorString ''package not found: nonexistent-package-xyz'')
   \<and> fst (GetPackageInfo (demoWorld 2 200 []) demoPip ''requests'' [])
     = Inl (ErrorString ''failed to decode package info: EOF'')
   \<and> fst (GetPackageInfo (demoWorld 2 200 ''{...}'') demoPip ''requests'' []) = Inr demoInfo
   \<and> snd (GetPackageInfo (demoWorld 2 200 ''{...}'') demoPip ''requests'' [])
     = [HttpGet ''https://pypi.org/pypi/requests/json'']"
proof -
  have a: "clientGet (demoWorld 2 404 ''{...}'') [] (''https://pypi.org/pypi/'' @ ''nonexistent-package-xyz'' @ ''/json'')
             = Inr \<lparr>StatusCode = 404, Body = ''{...}''\<rparr>"
    by (simp add: demo_defs)
  have b: "clientGet (demoWorld 2 200 []) [] (''https://pypi.org/pypi/'' @ ''requests'' @ ''/json'')
             = Inr \<lparr>StatusCode = 200, Body = []\<rparr>"
    by (simp add: demo_defs)
  have c: "clientGet (demoWorld 2 200 ''{...}'') [] (''https://pypi.org/pypi/'' @ ''requests'' @ ''/json'')
             = Inr \<lparr>StatusCode = 200, Body = ''{...}''\<rparr>"
    by (simp add: demo_defs)
  have b': "jsonDecode (demoWorld 2 200 []) [] = Inl (ErrorString ''EOF'')"
    by (simp add: demo_defs)
  have c': "jsonDecode (demoWorld 2 200 ''{...}'') ''{...}'' = Inr demoInfo"
    by (simp add: demo_defs)
  from GetPackageInfo_outcomes [OF a, of demoPip] GetPackageInfo_outcomes [OF b, of demoPip]
    GetPackageInfo_outcomes [OF c, of demoPip] b' c'
  show ?thesis by simp
qed

text \<open>
  C3 as stated fails: a response with status 203, which is a 2xx status, and a body that
  decodes is answered with \<open>package not found\<close>, not with the record.
\<close>

theorem GetPackageInfo_2xx_counterexample:
  "clientGet (demoWorld 2 203 ''{...}'') [] ''https://pypi.org/pypi/requests/json''
     = Inr \<lparr>StatusCode = 203, Body = ''{...}''\<rparr>
   \<and> jsonDecode (demoWorld 2 203 ''{...}'') ''{...}'' = Inr demoInfo
   \<and> GetPackageInfo (demoWorld 2 203 ''{...}'') demoPip ''requests'' []
     = (Inl (ErrorString ''package not found: requests''), [HttpGet ''https://pypi.org/pypi/requests/json''])"
  by (simp add: demo_defs GetPackageInfo_def)

text \<open>
  C6. \<open>SearchPackages query\<close> first probes \<open><simple index>/<query>/\<close>. A list it returns
  has at most one element. When the probe answers 200, the result is that of
  \<open>GetPackageInfo query\<close>: its error, or the one-element list of its record.
\<close>

theorem SearchPackages_at_most_one:
  "(\<forall>pkgs. fst (SearchPackages w p query t) = Inr pkgs \<longrightarrow> length pkgs \<le> 1)
   \<and> prefix (t @ [HttpGet (''https://pypi.org/simple/'' @ query @ ''/'')]) (snd (SearchPackages w p query t))
   \<and> (\<forall>resp info t'.
         clientGet w t (''https://pypi.org/simple/'' @ query @ ''/'') = Inr resp \<and> StatusCode resp = 200
         \<and> GetPackageInfo w p query (t @ [HttpGet (''https://pypi.org/simple/'' @ query @ ''/'')]) = (Inr info, t')
         \<longrightarrow> SearchPackages w p query t = (Inr [Info info], t'))
   \<and> (\<forall>resp err t'.
         clientGet w t (''https://pypi.org/simple/'' @ query @ ''/'') = Inr resp \<and> StatusCode resp = 200
         \<and> GetPackageInfo w p query (t @ [HttpGet (''https://pypi.org/simple/'' @ query @ ''/'')]) = (Inl err, t')
         \<longrightarrow> SearchPackages w p query t = (Inl err, t'))"
proof -
  let ?probe = "''https://pypi.org/simple/'' @ query @ ''/''"
  have url: "PyPISimpleURL @ ''/'' @ query @ ''/'' = ?probe"
    by (simp add: PyPISimpleURL_def)
  have len: "\<forall>pkgs. fst (SearchPackages w p query t) = Inr pkgs \<longrightarrow> length pkgs \<le> 1"
    by (auto simp: SearchPackages_def Let_def split: sum.splits prod.splits if_splits)
  have snd_get: "\<And>u. snd (GetPackageInfo w p query u) = u @ [HttpGet (PyPIURL @ ''/'' @ query @ ''/json'')]"
    by (simp add: GetPackageInfo_def Let_def split: sum.splits)
  have pre: "prefix (t @ [HttpGet ?probe]) (snd (SearchPackages w p query t))"
    unfolding SearchPackages_def Let_def url
    using snd_get [of "t @ [HttpGet ?probe]"]
    by (auto split: sum.splits prod.splits)
  have ok: "\<forall>resp info t'. clientGet w t ?probe = Inr resp \<and> StatusCode resp = 200
         \<and> GetPackageInfo w p query (t @ [HttpGet ?probe]) = (Inr info, t')
         \<longrightarrow> SearchPackages w p query t = (Inr [Info info], t')"
    unfolding SearchPackages_def Let_def url by (simp add: StatusOK_def)
  have bad: "\<forall>resp err t'. clientGet w t ?probe = Inr resp \<and> StatusCode resp = 200
         \<and> GetPackageInfo w p query (t @ [HttpGet ?probe]) = (Inl err, t')
         \<longrightarrow> SearchPackages w p query t = (Inl err, t')"
    unfolding SearchPackages_def Let_def url by (simp add: StatusOK_def)
  from len pre ok bad show ?thesis by blast
qed

theorem SearchPackages_at_most_one_witness:
  "clientGet (demoWorld 2 200 ''{...}'') [] ''https://pypi.org/simple/requests/''
     = Inr \<lparr>StatusCode = 200, Body = ''{...}''\<rparr>
   \<and> GetPackageInfo (demoWorld 2 200 ''{...}'') demoPip ''requests'' [HttpGet ''https://pypi.org/simple/requests/'']
     = (Inr demoInfo, [HttpGet ''https://pypi.org/simple/requests/'', HttpGet ''https://pypi.org/pypi/requests/json''])
   \<and> SearchPackages (demoWorld 2 200 ''{...}'') demoPip ''requests'' []
     = (Inr [Info demoInfo], [HttpGet ''https://pypi.org/simple/requests/'', HttpGet ''https://pypi.org/pypi/requests/json''])
   \<and> length [Info demoInfo] \<le> 1"
proof -
  have a: "clientGet (demoWorld 2 200 ''{...}'') [] (''https://pypi.org/simple/'' @ ''requests'' @ ''/'')
     = Inr \<lparr>StatusCode = 200, Body = ''{...}''\<rparr>"
    by (simp add: demo_defs)
  have b: "GetPackageInfo (demoWorld 2 200 ''{...}'') demoPip ''requests''
             ([] @ [HttpGet (''https://pypi.org/simple/'' @ ''requests'' @ ''/'')])
     = (Inr demoInfo, [HttpGet ''https://pypi.org/simple/requests/'', HttpGet ''https://pypi.org/pypi/requests/json''])"
    by (simp add: demo_defs GetPackageInfo_def)
  from SearchPackages_at_most_one
    [where w = "demoWorld 2 200 ''{...}''" and p = demoPip and query = "''requests''" and t = "[]"]
  have "SearchPackages (demoWorld 2 200 ''{...}'') demoPip ''requests'' []
     = (Inr [Info demoInfo], [HttpGet ''https://pypi.org/simple/requests/'', HttpGet ''https://pypi.org/pypi/requests/json''])"
    using a b by (simp del: append.simps)
  with a b show ?thesis by simp
qed

text \<open>
  C10. When the probe of \<open>SearchPackages\<close> is answered with a status other than 200, the
  result is the empty list and no error, after the probe alone (\<open>GetPackageInfo\<close> is not
  called, so its \<open>package not found\<close> cannot arise); the \<open>search\<close> command then prints
  nothing and returns no error.
\<close>

theorem SearchPackages_probe_not_ok:
  assumes "clientGet w t (''https://pypi.org/simple/'' @ query @ ''/'') = Inr resp"
    and "StatusCode resp \<noteq> 200"
  shows "SearchPackages w p query t = (Inr [], t @ [HttpGet (''https://pypi.org/simple/'' @ query @ ''/'')])
    \<and> Execute w p (SearchCmd [query]) t = (None, t @ [HttpGet (''https://pypi.org/simple/'' @ query @ ''/'')])"
proof -
  have url: "PyPISimpleURL @ ''/'' @ query @ ''/'' = ''https://pypi.org/simple/'' @ query @ ''/''"
    by (simp add: PyPISimpleURL_def)
  have s: "SearchPackages w p query t = (Inr [], t @ [HttpGet (''https://pypi.org/simple/'' @ query @ ''/'')])"
    unfolding SearchPackages_def Let_def url using assms by (simp add: StatusOK_def)
  then show ?thesis
    by (simp add: Execute_def ExactArgs_def searchCmd_RunE_def)
qed

theorem SearchPackages_probe_not_ok_witness:
  "clientGet (demoWorld 2 404 ''{...}'') [] ''https://pypi.org/simple/nonexistent-package-xyz/''
     = Inr \<lparr>StatusCode = 404, Body = ''{...}''\<rparr>
   \<and> SearchPackages (demoWorld 2 404 ''{...}'') demoPip ''nonexistent-package-xyz'' []
     = (Inr [], [HttpGet ''https://pypi.org/simple/nonexistent-package-xyz/''])
   \<and> main (demoWorld 2 404 ''{...}'') (demoLine (SearchCmd [''nonexistent-package-xyz'']))
     = (0, [HttpGet ''https://pypi.org/simple/nonexistent-package-xyz/''])"
proof -
  have a: "clientGet (demoWorld 2 404 ''{...}'') [] (''https://pypi.org/simple/'' @ ''nonexistent-package-xyz'' @ ''/'')
     = Inr \<lparr>StatusCode = 404, Body = ''{...}''\<rparr>"
    by (simp add: demo_defs)
  have b: "StatusCode \<lparr>StatusCode = 404, Body = ''{...}''\<rparr> \<noteq> 200"
    by simp
  have init: "Initialize (demoWorld 2 404 ''{...}'') NewPeakPip = Inr demoPip"
    by (simp add: demo_defs Initialize_def)
  from SearchPackages_probe_not_ok [OF a b, of "bindFlags (demoLine (SearchCmd [''nonexistent-package-xyz''])) demoPip"]
  have "main (demoWorld 2 404 ''{...}'') (demoLine (SearchCmd [''nonexistent-package-xyz'']))
     = (0, [HttpGet ''https://pypi.org/simple/nonexistent-package-xyz/''])"
    by (simp add: main_def init demoLine_def)
  moreover from SearchPackages_probe_not_ok [OF a b, of demoPip]
  have "SearchPackages (demoWorld 2 404 ''{...}'') demoPip ''nonexistent-package-xyz'' []
     = (Inr [], [HttpGet ''https://pypi.org/simple/nonexistent-package-xyz/''])"
    by simp
  ultimately show ?thesis using a by simp
qed

subsection \<open>Argument validation\<close>

lemma no_names_rejected:
  assumes "verbName c \<in> {''install'', ''uninstall'', ''show'', ''upgrade'', ''download'', ''check''}"
    and "positional c = []"
  shows "ValidateArgs c = Some (ErrorString ''requires at least 1 arg(s), only received 0'')"
  using assms by (cases c) (simp_all add: MinimumNArgs_def Itoa_digit)

lemma main_after_rejection:
  assumes "ValidateArgs (subcommand cl) = Some err"
  shows "fst (main w cl) = 1 \<and> filter (\<lambda>e. isSpawn e \<or> isHttpGet e) (snd (main w cl)) = []"
  using assms by (simp add: main_def Execute_def split: sum.splits)

text \<open>
  C5. A command \<open>install\<close>, \<open>uninstall\<close>, \<open>show\<close>, \<open>upgrade\<close>, \<open>download\<close> or \<open>check\<close> with no
  package name ends in the argument validator: the command returns the validator's
  error on the trace it started with (nothing was spawned, nothing requested, also not
  by the requirements hook of \<open>install\<close>), and the program exits with status 1 having
  spawned no subprocess and sent no request. \<open>search\<close> passes the validator with exactly
  one argument and ends in it with any other number.
\<close>

theorem zero_names_fail_validation:
  "(verbName c \<in> {''install'', ''uninstall'', ''show'', ''upgrade'', ''download'', ''check''}
      \<and> positional c = [] \<longrightarrow>
        Execute w p c t = (Some (ErrorString ''requires at least 1 arg(s), only received 0''), t)
        \<and> (subcommand cl = c \<longrightarrow>
             fst (main w cl) = 1 \<and> filter (\<lambda>e. isSpawn e \<or> isHttpGet e) (snd (main w cl)) = []))
   \<and> (length args \<noteq> 1 \<longrightarrow>
        Execute w p (SearchCmd args) t
          = (Some (ErrorString (''accepts 1 arg(s), received '' @ Itoa (length args))), t)
        \<and> (subcommand cl = SearchCmd args \<longrightarrow>
             fst (main w cl) = 1 \<and> filter (\<lambda>e. isSpawn e \<or> isHttpGet e) (snd (main w cl)) = []))
   \<and> ValidateArgs (SearchCmd [query]) = None"
proof -
  have multi: "Execute w p c t = (Some (ErrorString ''requires at least 1 arg(s), only received 0''), t)
        \<and> (subcommand cl = c \<longrightarrow>
             fst (main w cl) = 1 \<and> filter (\<lambda>e. isSpawn e \<or> isHttpGet e) (snd (main w cl)) = [])"
    if "verbName c \<in> {''install'', ''uninstall'', ''show'', ''upgrade'', ''download'', ''check''}"
      and "positional c = []"
    using no_names_rejected [OF that] main_after_rejection [of cl _ w]
    by (simp add: Execute_def)
  have search: "Execute w p (SearchCmd args) t
          = (Some (ErrorString (''accepts 1 arg(s), received '' @ Itoa (length args))), t)
        \<and> (subcommand cl = SearchCmd args \<longrightarrow>
             fst (main w cl) = 1 \<and> filter (\<lambda>e. isSpawn e \<or> isHttpGet e) (snd (main w cl)) = [])"
    if "length args \<noteq> 1"
    using that main_after_rejection [of cl _ w]
    by (simp add: Execute_def ExactArgs_def Itoa_digit)
  have one: "ValidateArgs (SearchCmd [query]) = None"
    by (simp add: ExactArgs_def)
  from multi search one show ?thesis by blast
qed

theorem zero_names_fail_validation_witness:
  "verbName (InstallCmd False [] ''requirements.txt'' []) = ''install''
   \<and> positional (InstallCmd False [] ''requirements.txt'' []) = []
   \<and> Execute (demoWorld 2 200 ''{...}'') demoPip (InstallCmd False [] ''requirements.txt'' []) []
       = (Some (ErrorString ''requires at least 1 arg(s), only received 0''), [])
   \<and> main (demoWorld 2 200 ''{...}'') (demoLine (InstallCmd False [] ''requirements.txt'' []))
       = (1, [Stderr ''error: requires at least 1 arg(s), only received 0\<newline>''])
   \<and> length [''http'', ''client''] = 2
   \<and> Execute (demoWorld 2 200 ''{...}'') demoPip (SearchCmd [''http'', ''client'']) []
       = (Some (ErrorString ''accepts 1 arg(s), received 2''), [])
   \<and> fst (main (demoWorld 2 200 ''{...}'') (demoLine (SearchCmd [''http'', ''client'']))) = 1"
proof -
  let ?w = "demoWorld 2 200 ''{...}''"
  let ?c = "InstallCmd False [] ''requirements.txt'' []"
  have run: "main ?w (demoLine ?c) = (1, [Stderr ''error: requires at least 1 arg(s), only received 0\<newline>''])"
    by (simp add: demo_defs dispatcher_defs Itoa_digit)
  have a: "verbName ?c \<in> {''install'', ''uninstall'', ''show'', ''upgrade'', ''download'', ''check''}"
    by simp
  have b: "positional ?c = []"
    by simp
  have c: "length [''http'', ''client''] \<noteq> 1"
    by simp
  have d: "subcommand (demoLine (SearchCmd [''http'', ''client''])) = SearchCmd [''http'', ''client'']"
    by (simp add: demoLine_def)
  from zero_names_fail_validation
    [where c = ?c and w = ?w and p = demoPip and t = "[]" and args = "[''http'', ''client'']"
       and cl = "demoLine (SearchCmd [''http'', ''client''])"]
    a b c d
  have "Execute ?w demoPip ?c [] = (Some (ErrorString ''requires at least 1 arg(s), only received 0''), [])
    \<and> Execute ?w demoPip (SearchCmd [''http'', ''client'']) []
       = (Some (ErrorString ''accepts 1 arg(s), received 2''), [])
    \<and> fst (main ?w (demoLine (SearchCmd [''http'', ''client'']))) = 1"
    by (simp add: Itoa_digit)
  with run show ?thesis by simp
qed

end
